theory Spec2Isabelle
  imports Main "HOL-Library.Sublist"
begin

section \<open>JavaScript values\<close>

text \<open>
  The values the session code handles: primitives and plain objects. An object is the
  list of its own enumerable properties in insertion order, with no key twice, so that
  \<^verbatim>\<open>Object.keys(o).length\<close> is the length of that list. Strict equality
  \<^verbatim>\<open>===\<close> is equality of values on primitives; the secrets, ids and flags that the
  code compares are primitives.
\<close>

datatype jsval =
    JUndefined
  | JNull
  | JBool bool
  | JNum int
  | JStr string
  | JObj "(string \<times> jsval) list"

text \<open>Truthiness, as \<^verbatim>\<open>if (v)\<close> and \<^verbatim>\<open>!v\<close> read a value.\<close>

fun truthy :: "jsval \<Rightarrow> bool" where
  "truthy JUndefined = False"
| "truthy JNull = False"
| "truthy (JBool b) = b"
| "truthy (JNum n) = (n \<noteq> 0)"
| "truthy (JStr s) = (s \<noteq> [])"
| "truthy (JObj kvs) = True"

text \<open>
  Property read \<^verbatim>\<open>v.k\<close> on a value that is neither null nor undefined: the property
  of an object, and undefined where there is none. (The reads of the code on values that
  may be null are guarded in the functions themselves.)
\<close>

fun getprop :: "jsval \<Rightarrow> string \<Rightarrow> jsval" where
  "getprop (JObj kvs) k = (case map_of kvs k of Some v \<Rightarrow> v | None \<Rightarrow> JUndefined)"
| "getprop v k = JUndefined"

fun nullish :: "jsval \<Rightarrow> bool" where
  "nullish JUndefined = True"
| "nullish JNull = True"
| "nullish v = False"

text \<open>
  \<^verbatim>\<open>Object.keys(v).length\<close>: the number of own enumerable properties; for a string
  its indices; zero for numbers and booleans; a TypeError (\<open>None\<close>) for null and
  undefined.
\<close>

fun Object_keys_length :: "jsval \<Rightarrow> nat option" where
  "Object_keys_length JUndefined = None"
| "Object_keys_length JNull = None"
| "Object_keys_length (JBool b) = Some 0"
| "Object_keys_length (JNum n) = Some 0"
| "Object_keys_length (JStr s) = Some (length s)"
| "Object_keys_length (JObj kvs) = Some (length kvs)"

section \<open>CookieSecretsStore\<close>

text \<open>
  The class holds one array, \<^verbatim>\<open>this.store\<close>; the model of a store is that array.
  A method that throws returns \<open>Inl\<close> of the error's message, and \<open>Inr\<close> of the
  array after the call otherwise.
\<close>

type_synonym secrets = "jsval list"

text \<open>\<^verbatim>\<open>Array.prototype.indexOf\<close> and \<^verbatim>\<open>lastIndexOf\<close>: \<open>-1\<close> when absent.\<close>

fun indexOf :: "'a list \<Rightarrow> 'a \<Rightarrow> int" where
  "indexOf [] x = -1"
| "indexOf (y # ys) x =
     (if y = x then 0 else (let i = indexOf ys x in if i < 0 then -1 else i + 1))"

definition lastIndexOf :: "'a list \<Rightarrow> 'a \<Rightarrow> int" where
  "lastIndexOf xs x =
     (let i = indexOf (rev xs) x in if i < 0 then -1 else int (length xs) - 1 - i)"

text \<open>
  \<^verbatim>\<open>a.splice(start, deleteCount, item)\<close> and \<^verbatim>\<open>a.splice(start, deleteCount)\<close>
  for \<open>0 \<le> start\<close>; a start beyond the end is the end.
\<close>

definition splice_insert :: "nat \<Rightarrow> 'a \<Rightarrow> 'a list \<Rightarrow> 'a list" where
  "splice_insert start item xs = take start xs @ item # drop start xs"

definition splice_delete :: "nat \<Rightarrow> nat \<Rightarrow> 'a list \<Rightarrow> 'a list" where
  "splice_delete start n xs = take start xs @ drop (start + n) xs"

definition addSigning :: "jsval \<Rightarrow> secrets \<Rightarrow> string + secrets" where
  "addSigning key st =
     (case key of
        JStr s \<Rightarrow>
          if length s < 32
          then Inl ''The secret must be a string with length 32 or greater''
          else Inr (splice_insert 0 key st)
      | _ \<Rightarrow> Inl ''The secret must be a string with length 32 or greater'')"

definition addUnsigning :: "jsval \<Rightarrow> secrets \<Rightarrow> secrets" where
  "addUnsigning key st = splice_insert 1 key st"

definition contains :: "jsval \<Rightarrow> secrets \<Rightarrow> bool" where
  "contains key st = (lastIndexOf st key \<noteq> -1)"

definition isSigning :: "jsval \<Rightarrow> secrets \<Rightarrow> bool" where
  "isSigning key st = (indexOf st key = 0)"

definition remove_key :: "jsval \<Rightarrow> secrets \<Rightarrow> string + secrets" where
  "remove_key key st =
     (let index = lastIndexOf st key in
      if index = 0 then Inl ''Unable to remove the signing key. Add another one first''
      else if index > 0 then Inr (splice_delete (nat index) 1 st)
      else Inr st)"

text \<open>
  The constructor. Its argument is an array or any other value. For the empty array the
  constructor returns an Error object, which \<^verbatim>\<open>new\<close> then yields in place of a
  store; \<^verbatim>\<open>addSigning\<close> may throw.
\<close>

datatype init_secrets = InitArray "jsval list" | InitValue jsval

datatype constructed = ErrorObject string | SecretsStore secrets

definition CookieSecretsStore :: "init_secrets \<Rightarrow> string + constructed" where
  "CookieSecretsStore initSecrets =
     (case initSecrets of
        InitArray [] \<Rightarrow>
          Inr (ErrorObject ''The initial array of secrets must have at least 1 secret'')
      | InitArray (k # ks) \<Rightarrow>
          (case addSigning k [] of
             Inl e \<Rightarrow> Inl e
           | Inr st \<Rightarrow> Inr (SecretsStore (fold addUnsigning ks st)))
      | InitValue v \<Rightarrow>
          (case addSigning v [] of
             Inl e \<Rightarrow> Inl e
           | Inr st \<Rightarrow> Inr (SecretsStore st)))"

section \<open>The session plugin\<close>

subsection \<open>Options, store and request\<close>

text \<open>
  A store object is seen by the plugin through the declared parameter counts of its three
  methods (\<^verbatim>\<open>store.get.length\<close> and so on) and through what each method passes to
  its callback. The parameter counts are fields of the store as it is when they are read;
  what a method passes to its callback is an argument of the hook that calls it. A
  method that is called is taken to call its callback, once.
\<close>

record store =
  get_length :: nat
  set_length :: nat
  destroy_length :: nat

record cookie_opts =
  path :: "string option"
  secure :: jsval

record options =
  secret :: string
  store :: store
  cookieName :: string
  cookie :: cookie_opts
  saveUninitialized :: jsval

text \<open>
  The request: \<^verbatim>\<open>request.req.url\<close>, the parsed cookies, the decorated
  \<^verbatim>\<open>session\<close> and \<^verbatim>\<open>sessionStore\<close>, \<^verbatim>\<open>request.req.connection\<close> and the
  headers.
\<close>

record request =
  url :: string
  cookies :: "string \<rightharpoonup> string"
  session :: jsval
  sessionStore :: store
  connection :: jsval
  headers :: "string \<rightharpoonup> string"

text \<open>
  What the plugin calls but does not define: \<^verbatim>\<open>cookieSignature.unsign\<close> of the
  cookie-signature package (\<open>None\<close> for its \<^verbatim>\<open>false\<close>), the constructor of the
  Session class (without and with a previous session), the \<^verbatim>\<open>isExpired()\<close> method of
  a session that a store returned, and the \<^verbatim>\<open>options()\<close> method of the value held
  in \<^verbatim>\<open>session.cookie\<close> (\<open>None\<close> where the call throws). They are parameters of
  the hooks.
\<close>

record externals =
  unsign :: "string \<Rightarrow> string \<Rightarrow> string option"
  Session :: "cookie_opts \<Rightarrow> string \<Rightarrow> jsval option \<Rightarrow> jsval"
  isExpired :: "jsval \<Rightarrow> bool option"
  cookie_options :: "jsval \<Rightarrow> jsval option"

text \<open>
  A store method is called in its short form or with the request as an extra argument
  before the callback. A hook ends when it calls \<^verbatim>\<open>done\<close>, with or without an
  error, or when an exception leaves it. Its outcome is the store calls it made, in
  order, the request as it left it, the cookies it set on the reply and how it ended.
\<close>

datatype form = Plain | WithRequest

datatype store_call =
    StoreGet form jsval
  | StoreSet form jsval jsval
  | StoreDestroy form jsval

datatype completion = Done jsval | Thrown

record outcome =
  calls :: "store_call list"
  request_after :: request
  cookies_set :: "(string \<times> jsval \<times> jsval) list"
  completion :: completion

definition finish :: "store_call list \<Rightarrow> request \<Rightarrow> jsval \<Rightarrow> outcome" where
  "finish cs request v =
     \<lparr>calls = cs, request_after = request, cookies_set = [], completion = Done v\<rparr>"

definition throw :: "store_call list \<Rightarrow> request \<Rightarrow> outcome" where
  "throw cs request =
     \<lparr>calls = cs, request_after = request, cookies_set = [], completion = Thrown\<rparr>"

definition call_form :: "bool \<Rightarrow> form" where
  "call_form implementsRequest = (if implementsRequest then WithRequest else Plain)"

subsection \<open>preValidation: resolving the session\<close>

text \<open>What \<^verbatim>\<open>preValidation(options)\<close> computes once and \<^verbatim>\<open>handleSession\<close> keeps.\<close>

record pre_validation =
  storeImplementsRequestAtGet :: bool
  implementsRequestAtDestroy :: bool
  cookieOpts :: cookie_opts
  captured_secret :: string

definition preValidation :: "options \<Rightarrow> pre_validation" where
  "preValidation opts =
     \<lparr>storeImplementsRequestAtGet = (get_length (store opts) \<ge> 3),
      implementsRequestAtDestroy = (destroy_length (store opts) \<ge> 3),
      cookieOpts = cookie opts,
      captured_secret = secret opts\<rparr>"

definition newSession ::
  "externals \<Rightarrow> string \<Rightarrow> request \<Rightarrow> cookie_opts \<Rightarrow> store_call list \<Rightarrow> outcome" where
  "newSession ext sec request copts cs =
     finish cs (request\<lparr>session := Session ext copts sec None\<rparr>) JUndefined"

definition getDestroyCallback ::
  "externals \<Rightarrow> string \<Rightarrow> request \<Rightarrow> cookie_opts \<Rightarrow> store_call list \<Rightarrow> jsval \<Rightarrow> outcome" where
  "getDestroyCallback ext sec request copts cs err =
     (if truthy err then finish cs request err
      else newSession ext sec request copts cs)"

text \<open>
  The callback given to \<^verbatim>\<open>store.get\<close>, applied to the error and the session the
  store passes; \<open>destroy_err\<close> is what \<^verbatim>\<open>store.destroy\<close> passes to its callback if
  it is called.
\<close>

definition getCallback ::
  "externals \<Rightarrow> pre_validation \<Rightarrow> request \<Rightarrow> string \<Rightarrow> store_call list
     \<Rightarrow> jsval \<times> jsval \<Rightarrow> jsval \<Rightarrow> outcome" where
  "getCallback ext cl request sessionId cs reply destroy_err =
     (let err = fst reply; loaded = snd reply;
          sec = captured_secret cl; copts = cookieOpts cl in
      if truthy err then
        (if getprop err ''code'' = JStr ''ENOENT''
         then newSession ext sec request copts cs
         else finish cs request err)
      else if \<not> truthy loaded then newSession ext sec request copts cs
      else
        (case isExpired ext loaded of
           None \<Rightarrow> throw cs request
         | Some True \<Rightarrow>
             getDestroyCallback ext sec request copts
               (cs @ [StoreDestroy (call_form (implementsRequestAtDestroy cl)) (JStr sessionId)])
               destroy_err
         | Some False \<Rightarrow>
             finish cs (request\<lparr>session := Session ext copts sec (Some loaded)\<rparr>) JUndefined))"

definition path_or_default :: "cookie_opts \<Rightarrow> string" where
  "path_or_default copts =
     (case path copts of None \<Rightarrow> ''/'' | Some p \<Rightarrow> if p = [] then ''/'' else p)"

text \<open>
  \<open>opts\<close> is the options object as it is when the hook runs (the hook reads
  \<^verbatim>\<open>options.cookieName\<close> from it); \<open>cl\<close> is what was computed at set-up.
\<close>

definition handleSession ::
  "externals \<Rightarrow> pre_validation \<Rightarrow> options \<Rightarrow> request \<Rightarrow> jsval \<times> jsval \<Rightarrow> jsval \<Rightarrow> outcome" where
  "handleSession ext cl opts request get_reply destroy_err =
     (let sec = captured_secret cl; copts = cookieOpts cl in
      if \<not> prefix (path_or_default copts) (url request) then finish [] request JUndefined
      else
        (case cookies request (cookieName opts) of
           None \<Rightarrow> newSession ext sec request copts []
         | Some sessionId \<Rightarrow>
             if sessionId = [] then newSession ext sec request copts []
             else
               (case unsign ext sessionId sec of
                  None \<Rightarrow> newSession ext sec request copts []
                | Some decryptedSessionId \<Rightarrow>
                    getCallback ext cl request sessionId
                      [StoreGet (call_form (storeImplementsRequestAtGet cl))
                         (JStr decryptedSessionId)]
                      get_reply destroy_err)))"

subsection \<open>onSend: saving the session\<close>

definition isSessionModified :: "jsval \<Rightarrow> bool option" where
  "isSessionModified s = map_option (\<lambda>n. n \<noteq> 4) (Object_keys_length s)"

definition secure_allows :: "request \<Rightarrow> cookie_opts \<Rightarrow> bool" where
  "secure_allows request copts =
     (if secure copts \<noteq> JBool True then True
      else if truthy (connection request)
              \<and> getprop (connection request) ''encrypted'' = JBool True then True
      else headers request ''x-forwarded-proto'' = Some ''https'')"

text \<open>
  \<^verbatim>\<open>shouldSaveSession\<close>; \<open>secure_allows\<close> is its part from the test of
  \<^verbatim>\<open>cookieOpts.secure\<close> on. \<open>None\<close> is the TypeError of \<^verbatim>\<open>Object.keys\<close>.
\<close>

definition shouldSaveSession :: "request \<Rightarrow> cookie_opts \<Rightarrow> jsval \<Rightarrow> bool option" where
  "shouldSaveSession request copts saveUninit =
     (if \<not> truthy saveUninit then
        (case isSessionModified (session request) of
           None \<Rightarrow> None
         | Some modified \<Rightarrow>
             if \<not> modified then Some False else Some (secure_allows request copts))
      else Some (secure_allows request copts))"

record on_send =
  storeImplementsRequestAtSet :: bool

definition onSend :: "options \<Rightarrow> on_send" where
  "onSend opts = \<lparr>storeImplementsRequestAtSet = (set_length (store opts) \<ge> 4)\<rparr>"

text \<open>
  \<open>set_err\<close> is what \<^verbatim>\<open>store.set\<close> passes to its callback if it is called.
\<close>

definition saveSession ::
  "externals \<Rightarrow> on_send \<Rightarrow> options \<Rightarrow> request \<Rightarrow> jsval \<Rightarrow> outcome" where
  "saveSession ext cl opts request set_err =
     (let s = session request in
      if \<not> truthy s then finish [] request JUndefined
      else if \<not> truthy (getprop s ''sessionId'') then finish [] request JUndefined
      else
        (case shouldSaveSession request (cookie opts) (saveUninitialized opts) of
           None \<Rightarrow> throw [] request
         | Some False \<Rightarrow> finish [] request JUndefined
         | Some True \<Rightarrow>
             (let cs = [StoreSet (call_form (storeImplementsRequestAtSet cl))
                          (getprop s ''sessionId'') s] in
              if truthy set_err then finish cs request set_err
              else
                (case cookie_options ext (getprop s ''cookie'') of
                   None \<Rightarrow> throw cs request
                 | Some copt \<Rightarrow>
                     \<lparr>calls = cs, request_after = request,
                      cookies_set =
                        [(cookieName opts, getprop s ''encryptedSessionId'', copt)],
                      completion = Done JUndefined\<rparr>))))"

subsection \<open>destroySession\<close>

text \<open>
  \<^verbatim>\<open>request.session.sessionId\<close> is read before the store is called, and throws a
  TypeError when the session is null or undefined. \<open>destroy_err\<close> is what
  \<^verbatim>\<open>store.destroy\<close> passes to its callback.
\<close>

definition destroySession :: "request \<Rightarrow> jsval \<Rightarrow> outcome" where
  "destroySession request destroy_err =
     (let implementsRequestAtDestroy = (destroy_length (sessionStore request) \<ge> 3) in
      if nullish (session request) then throw [] request
      else
        finish
          [StoreDestroy (call_form implementsRequestAtDestroy)
             (getprop (session request) ''sessionId'')]
          (request\<lparr>session := JNull\<rparr>)
          destroy_err)"

section \<open>Reference definitions and concrete inputs\<close>

subsection \<open>Verification against several secrets, as the specification words it\<close>

text \<open>
  "Verification must be attempted against the signing secret first, then each unsigning
  secret in store order, stopping at first success": the secrets are tried from
  position 0 on, and the first one under which the value unsigns gives the result.
\<close>

fun verify_in_store_order ::
  "(string \<Rightarrow> string \<Rightarrow> string option) \<Rightarrow> string list \<Rightarrow> string \<Rightarrow> string option" where
  "verify_in_store_order u [] c = None"
| "verify_in_store_order u (k # ks) c =
     (case u c k of Some i \<Rightarrow> Some i | None \<Rightarrow> verify_in_store_order u ks c)"

subsection \<open>The initial shape of a session\<close>

text \<open>
  Modelled from the spec: the Session class (\<^verbatim>\<open>./session\<close>) is not among the
  sources. "The initial shape always carries exactly the negotiator's own bookkeeping
  keys": the identifier, the signed identifier, the expiry and the cookie policy, under
  the property names that \<^verbatim>\<open>saveSession\<close> reads.
\<close>

definition bookkeeping_keys :: "string list" where
  "bookkeeping_keys = [''expires'', ''cookie'', ''sessionId'', ''encryptedSessionId'']"

fun initial_shape :: "jsval \<Rightarrow> bool" where
  "initial_shape (JObj kvs) =
     (distinct (map fst kvs) \<and> set (map fst kvs) = set bookkeeping_keys)"
| "initial_shape v = False"

subsection \<open>Stand-ins for the collaborators\<close>

text \<open>
  Modelled from the spec: the signing helper (the cookie-signature package) is not among
  the sources. "\<^verbatim>\<open>sign(rawId, secret)\<close>: deterministic, secret-keyed tamper-evident
  encoding of \<^verbatim>\<open>rawId\<close>". The signed value is the id, a dot and a keyed tag; the tag
  here is a toy, not a MAC.
\<close>

definition sign_standin :: "string \<Rightarrow> string \<Rightarrow> string" where
  "sign_standin val sec = val @ ''.'' @ rev sec @ ''-'' @ rev val"

text \<open>
  Modelled from the spec: the verifying half of the signing helper, not among the sources.
  "\<^verbatim>\<open>verify(signedValue, secret)\<close>: returns the original id only if the signature
  matches; returns a distinct invalid sentinel on mismatch". The value is cut at its
  last dot, the front is signed again and the result compared with the value.
\<close>

definition unsign_standin :: "string \<Rightarrow> string \<Rightarrow> string option" where
  "unsign_standin val sec =
     (let i = lastIndexOf val (CHR ''.'');
          str = (if i < 0 then butlast val else take (nat i) val)
      in if sign_standin str sec = val then Some str else None)"

text \<open>
  Modelled from the spec: the cookie policy object of a session (its class is not among
  the sources), "derived configuration (path, domain, secure, ...)"; of these the path
  and the secure flag, which are the options the plugin reads.
\<close>

definition cookie_standin :: "cookie_opts \<Rightarrow> jsval" where
  "cookie_standin copts =
     JObj [(''path'', JStr (case path copts of None \<Rightarrow> ''/'' | Some p \<Rightarrow> p)),
           (''secure'', secure copts)]"

text \<open>
  Modelled from the spec: the Session class is not among the sources. A session created
  without a previous one has a fresh id (here: the given \<open>uid\<close>), that id signed by the
  secret, no expiry yet and the cookie policy; one created from a loaded payload keeps
  the payload's properties.
\<close>

definition Session_standin :: "string \<Rightarrow> cookie_opts \<Rightarrow> string \<Rightarrow> jsval option \<Rightarrow> jsval" where
  "Session_standin uid copts sec prev =
     (case prev of
        None \<Rightarrow>
          JObj [(''expires'', JNull), (''cookie'', cookie_standin copts),
                (''sessionId'', JStr uid),
                (''encryptedSessionId'', JStr (sign_standin uid sec))]
      | Some p \<Rightarrow> p)"

text \<open>
  Modelled from the spec: the \<^verbatim>\<open>isExpired\<close> method of the Session class, not among
  the sources. "A session is expired when \<^verbatim>\<open>now >= expires\<close>"; a session without a
  numeric expiry does not expire.
\<close>

definition isExpired_standin :: "int \<Rightarrow> jsval \<Rightarrow> bool option" where
  "isExpired_standin now s =
     (case getprop s ''expires'' of JNum e \<Rightarrow> Some (e \<le> now) | _ \<Rightarrow> Some False)"

text \<open>
  Modelled from the spec: the \<^verbatim>\<open>options\<close> method of the cookie policy object, not
  among the sources: "the session's cookie options". Calling it on null or undefined
  throws.
\<close>

definition cookie_options_standin :: "jsval \<Rightarrow> jsval option" where
  "cookie_options_standin c = (if nullish c then None else Some c)"

text \<open>The collaborators at the time \<open>now\<close>, with \<open>uid\<close> the next fresh id.\<close>

definition standins :: "int \<Rightarrow> string \<Rightarrow> externals" where
  "standins now uid =
     \<lparr>unsign = unsign_standin, Session = Session_standin uid,
      isExpired = isExpired_standin now, cookie_options = cookie_options_standin\<rparr>"

subsection \<open>Concrete inputs\<close>

definition secret_A :: string where
  "secret_A = ''ABCDEFGHIJKLNMOPQRSTUVWXYZ012345''"

definition secret_B :: string where
  "secret_B = ''0123456789abcdefghijklmnopqrstuv''"

definition plain_store :: store where
  "plain_store = \<lparr>get_length = 2, set_length = 3, destroy_length = 2\<rparr>"

definition request_store :: store where
  "request_store = \<lparr>get_length = 3, set_length = 4, destroy_length = 3\<rparr>"

definition example_options :: "string \<Rightarrow> options" where
  "example_options sec =
     \<lparr>secret = sec, store = plain_store, cookieName = ''sessionId'',
      cookie = \<lparr>path = None, secure = JBool True\<rparr>,
      saveUninitialized = JBool True\<rparr>"

text \<open>
  A request for \<^verbatim>\<open>/\<close> over a plain connection, as it arrives: the decorated
  \<^verbatim>\<open>session\<close> is the empty object.
\<close>

definition example_request :: "string option \<Rightarrow> request" where
  "example_request c =
     \<lparr>url = ''/'',
      cookies = (case c of None \<Rightarrow> Map.empty | Some v \<Rightarrow> [''sessionId'' \<mapsto> v]),
      session = JObj [], sessionStore = plain_store,
      connection = JObj [], headers = Map.empty\<rparr>"

definition stored_session :: "int \<Rightarrow> jsval" where
  "stored_session e =
     JObj [(''expires'', JNum e), (''cookie'', JObj []), (''sessionId'', JStr ''id1''),
           (''encryptedSessionId'', JStr (sign_standin ''id1'' secret_A))]"

definition io_error :: jsval where
  "io_error = JObj [(''message'', JStr ''store unavailable'')]"

definition not_found_error :: jsval where
  "not_found_error = JObj [(''code'', JStr ''ENOENT'')]"

definition cookie_A :: string where
  "cookie_A = sign_standin ''id1'' secret_A"

definition fresh_session :: jsval where
  "fresh_session = Session_standin ''new1'' \<lparr>path = None, secure = JBool True\<rparr> secret_A None"

text \<open>A request over an encrypted connection that carries the session \<open>s\<close>.\<close>

definition encrypted_request :: "jsval \<Rightarrow> request" where
  "encrypted_request s =
     (example_request None)\<lparr>session := s, connection := JObj [(''encrypted'', JBool True)]\<rparr>"

section \<open>Properties\<close>

lemmas resolve_defs =
  handleSession_def getCallback_def getDestroyCallback_def newSession_def
  finish_def throw_def path_or_default_def Let_def

lemmas persist_defs =
  saveSession_def shouldSaveSession_def secure_allows_def isSessionModified_def
  finish_def throw_def Let_def

lemmas standin_defs =
  standins_def unsign_standin_def sign_standin_def Session_standin_def
  isExpired_standin_def cookie_options_standin_def cookie_standin_def lastIndexOf_def

lemmas example_defs =
  example_options_def example_request_def stored_session_def plain_store_def
  request_store_def secret_A_def secret_B_def io_error_def not_found_error_def
  cookie_A_def fresh_session_def encrypted_request_def

subsection \<open>The secrets store\<close>

lemma indexOf_range:
  "indexOf xs x = -1 \<or> (0 \<le> indexOf xs x \<and> indexOf xs x < int (length xs))"
  by (induction xs) (auto simp add: Let_def)

lemma indexOf_absent_iff: "indexOf xs x < 0 \<longleftrightarrow> x \<notin> set xs"
  by (induction xs) (auto simp add: Let_def)

lemma indexOf_zero_iff: "indexOf xs x = 0 \<longleftrightarrow> (\<exists>ys. xs = x # ys)"
proof (cases xs)
  case Nil
  then show ?thesis by simp
next
  case (Cons y ys)
  show ?thesis using Cons indexOf_range [of ys x] by (auto simp add: Let_def)
qed

lemma indexOf_snoc:
  "indexOf (ys @ [y]) x =
     (if x \<in> set ys then indexOf ys x else if y = x then int (length ys) else -1)"
  by (induction ys) (auto simp add: Let_def indexOf_absent_iff)

lemma lastIndexOf_zero_iff:
  "lastIndexOf xs x = 0 \<longleftrightarrow> (\<exists>ys. xs = x # ys \<and> x \<notin> set ys)"
proof (cases xs)
  case Nil
  then show ?thesis by (simp add: lastIndexOf_def)
next
  case (Cons a as)
  have r: "indexOf (rev as) x = -1
         \<or> (0 \<le> indexOf (rev as) x \<and> indexOf (rev as) x < int (length as))"
    using indexOf_range [of "rev as" x] by simp
  show ?thesis
    using Cons r by (auto simp add: lastIndexOf_def indexOf_snoc Let_def)
qed

lemma lastIndexOf_absent_iff: "lastIndexOf xs x < 0 \<longleftrightarrow> x \<notin> set xs"
  using indexOf_range [of "rev xs" x] indexOf_absent_iff [of "rev xs" x]
  by (auto simp add: lastIndexOf_def Let_def)

text \<open>
  \<^verbatim>\<open>addSigning\<close>, when it returns, has put the key at position 0 and moved every
  other secret one position up; the key is a string of 32 characters or more.
\<close>

lemma addSigning_front:
  "addSigning key st = Inr st' \<Longrightarrow> st' = key # st \<and> (\<exists>s. key = JStr s \<and> 32 \<le> length s)"
  by (auto simp add: addSigning_def splice_insert_def split: jsval.splits if_splits)

lemma addUnsigning_second: "addUnsigning key (s # st) = s # key # st"
  by (simp add: addUnsigning_def splice_insert_def)

text \<open>
  \<^verbatim>\<open>remove\<close> throws exactly when the key is at position 0 and nowhere else; when it
  returns, position 0 is as before.
\<close>

lemma remove_key_throws_iff:
  "(\<exists>e. remove_key key st = Inl e) \<longleftrightarrow> (\<exists>ys. st = key # ys \<and> key \<notin> set ys)"
  by (auto simp add: remove_key_def Let_def lastIndexOf_zero_iff)

lemma remove_key_keeps_signing:
  assumes "remove_key key (s # st) = Inr st'"
  shows "\<exists>st''. st' = s # st''"
proof (cases "lastIndexOf (s # st) key > 0")
  case True
  then obtain n where n: "nat (lastIndexOf (s # st) key) = Suc n"
    by (cases "nat (lastIndexOf (s # st) key)") auto
  from assms True have "st' = splice_delete (Suc n) 1 (s # st)"
    by (auto simp add: remove_key_def Let_def n split: if_splits)
  then show ?thesis by (simp add: splice_delete_def)
next
  case False
  with assms show ?thesis by (auto simp add: remove_key_def Let_def split: if_splits)
qed

text \<open>
  C9 (the secret at position 0 is the one signing secret; \<^verbatim>\<open>remove\<close> of it always
  fails with an error), evaluated on a store that holds its signing secret a second time.
  The store is built with secret A, then B and then A again are added as signing secrets. A is now
  the signing secret, at position 0, and \<^verbatim>\<open>isSigning\<close> says so; \<^verbatim>\<open>remove\<close> of A
  does not throw: it finds A by \<^verbatim>\<open>lastIndexOf\<close>, at position 2, and deletes that
  occurrence.
\<close>

theorem C9_remove_signing_secret_held_twice:
  "CookieSecretsStore (InitValue (JStr secret_A)) = Inr (SecretsStore [JStr secret_A])
 \<and> addSigning (JStr secret_B) [JStr secret_A] = Inr [JStr secret_B, JStr secret_A]
 \<and> addSigning (JStr secret_A) [JStr secret_B, JStr secret_A]
     = Inr [JStr secret_A, JStr secret_B, JStr secret_A]
 \<and> isSigning (JStr secret_A) [JStr secret_A, JStr secret_B, JStr secret_A]
 \<and> remove_key (JStr secret_A) [JStr secret_A, JStr secret_B, JStr secret_A]
     = Inr [JStr secret_A, JStr secret_B]"
  by (simp add: CookieSecretsStore_def addSigning_def splice_insert_def isSigning_def
        remove_key_def lastIndexOf_def splice_delete_def secret_A_def secret_B_def)

subsection \<open>Resolving the session\<close>

text \<open>
  C1, as stated, fails. A secrets store that held secret A gets B as its new signing
  secret, so A is now its first unsigning secret, and the plugin is set up with the
  signing secret B. A cookie signed under A verifies when the secrets are tried in store
  order, but \<^verbatim>\<open>handleSession\<close> unsigns it under B alone: it calls no store and
  attaches a new session.
\<close>

theorem C1_counterexample:
  "addSigning (JStr secret_B) [JStr secret_A] = Inr [JStr secret_B, JStr secret_A]
 \<and> verify_in_store_order unsign_standin [secret_B, secret_A] cookie_A = Some ''id1''
 \<and> handleSession (standins 100 ''new1'') (preValidation (example_options secret_B))
       (example_options secret_B) (example_request (Some cookie_A))
       (JUndefined, stored_session 200) JUndefined
     = \<lparr>calls = [],
        request_after = (example_request (Some cookie_A))
          \<lparr>session := Session_standin ''new1'' (cookie (example_options secret_B))
                        secret_B None\<rparr>,
        cookies_set = [], completion = Done JUndefined\<rparr>"
  by (simp add: addSigning_def splice_insert_def resolve_defs preValidation_def
        standin_defs example_defs)

text \<open>
  C1, amended: for a request in the cookie's path scope that carries a non-empty session
  cookie, the resolve phase verifies the cookie against the one secret the plugin was set
  up with, in a single \<^verbatim>\<open>unsign\<close>. If that fails, a new session is attached and no
  store is called, whatever other secret the cookie was signed under; if it succeeds,
  the store's get is called with the recovered id. This is verification in store order
  over a store of that one secret.
\<close>

theorem C1_single_secret:
  assumes "prefix (path_or_default (cookie opts0)) (url request)"
    and "cookies request (cookieName opts) = Some c" and "c \<noteq> []"
  shows "(unsign ext c (secret opts0) = None \<longrightarrow>
            handleSession ext (preValidation opts0) opts request get_reply destroy_err
            = \<lparr>calls = [],
               request_after =
                 request\<lparr>session := Session ext (cookie opts0) (secret opts0) None\<rparr>,
               cookies_set = [], completion = Done JUndefined\<rparr>)
       \<and> (\<forall>i. unsign ext c (secret opts0) = Some i \<longrightarrow>
            (\<exists>rest. calls (handleSession ext (preValidation opts0) opts request
                              get_reply destroy_err)
                    = StoreGet (call_form (3 \<le> get_length (store opts0))) (JStr i) # rest))
       \<and> verify_in_store_order (unsign ext) [secret opts0] c = unsign ext c (secret opts0)"
  using assms
  by (auto simp add: resolve_defs preValidation_def split: option.splits bool.splits)

theorem C1_single_secret_witness:
  "prefix (path_or_default (cookie (example_options secret_B)))
     (url (example_request (Some cookie_A)))
 \<and> cookies (example_request (Some cookie_A)) (cookieName (example_options secret_B))
     = Some cookie_A
 \<and> cookie_A \<noteq> []
 \<and> unsign (standins 100 ''new1'') cookie_A (secret (example_options secret_B)) = None
 \<and> calls (handleSession (standins 100 ''new1'') (preValidation (example_options secret_B))
      (example_options secret_B) (example_request (Some cookie_A))
      (JUndefined, stored_session 200) JUndefined) = []"
proof -
  have h1: "prefix (path_or_default (cookie (example_options secret_B)))
              (url (example_request (Some cookie_A)))"
    by (simp add: path_or_default_def example_defs)
  have h2: "cookies (example_request (Some cookie_A)) (cookieName (example_options secret_B))
            = Some cookie_A"
    by (simp add: example_defs)
  have h3: "cookie_A \<noteq> []"
    by (simp add: example_defs sign_standin_def)
  have u: "unsign (standins 100 ''new1'') cookie_A (secret (example_options secret_B)) = None"
    by (simp add: standin_defs example_defs)
  from C1_single_secret [OF h1 h2 h3, where ext = "standins 100 ''new1''"
      and get_reply = "(JUndefined, stored_session 200)" and destroy_err = JUndefined] u
  have "calls (handleSession (standins 100 ''new1'') (preValidation (example_options secret_B))
      (example_options secret_B) (example_request (Some cookie_A))
      (JUndefined, stored_session 200) JUndefined) = []"
    by simp
  with h1 h2 h3 u show ?thesis by simp
qed

text \<open>
  C4: for a request in the cookie's path scope, a cookie whose signature is invalid gives
  exactly the outcome of an absent cookie: a new session is attached,
  \<^verbatim>\<open>done\<close> is called without an error and no store is called. A store get that
  reports not-found (an error whose code is ENOENT, or no error and no session) gives
  the same new session and the same \<^verbatim>\<open>done()\<close>, after the one get. Any other error
  of the get is passed to \<^verbatim>\<open>done\<close> and the request keeps the session it had.
\<close>

theorem C4_invalid_and_not_found_as_absent:
  assumes "prefix (path_or_default (cookieOpts cl)) (url request)"
  shows "(cookies request (cookieName opts) = None
            \<or> cookies request (cookieName opts) = Some [] \<longrightarrow>
            handleSession ext cl opts request (err, loaded) destroy_err
            = newSession ext (captured_secret cl) request (cookieOpts cl) [])
       \<and> (\<forall>c. cookies request (cookieName opts) = Some c \<and> c \<noteq> []
               \<and> unsign ext c (captured_secret cl) = None \<longrightarrow>
            handleSession ext cl opts request (err, loaded) destroy_err
            = newSession ext (captured_secret cl) request (cookieOpts cl) [])
       \<and> (\<forall>c i. cookies request (cookieName opts) = Some c \<and> c \<noteq> []
               \<and> unsign ext c (captured_secret cl) = Some i
               \<and> (if truthy err then getprop err ''code'' = JStr ''ENOENT''
                   else \<not> truthy loaded) \<longrightarrow>
            handleSession ext cl opts request (err, loaded) destroy_err
            = newSession ext (captured_secret cl) request (cookieOpts cl)
                [StoreGet (call_form (storeImplementsRequestAtGet cl)) (JStr i)])
       \<and> (\<forall>c i. cookies request (cookieName opts) = Some c \<and> c \<noteq> []
               \<and> unsign ext c (captured_secret cl) = Some i
               \<and> truthy err \<and> getprop err ''code'' \<noteq> JStr ''ENOENT'' \<longrightarrow>
            handleSession ext cl opts request (err, loaded) destroy_err
            = \<lparr>calls = [StoreGet (call_form (storeImplementsRequestAtGet cl)) (JStr i)],
               request_after = request, cookies_set = [], completion = Done err\<rparr>)
       \<and> newSession ext (captured_secret cl) request (cookieOpts cl) cs
            = \<lparr>calls = cs,
               request_after =
                 request\<lparr>session := Session ext (cookieOpts cl) (captured_secret cl) None\<rparr>,
               cookies_set = [], completion = Done JUndefined\<rparr>"
  using assms
  by (auto simp add: resolve_defs split: option.splits bool.splits if_splits)

theorem C4_invalid_and_not_found_as_absent_witness:
  "prefix (path_or_default (cookieOpts (preValidation (example_options secret_B))))
     (url (example_request (Some cookie_A)))
 \<and> unsign (standins 100 ''new1'') cookie_A secret_B = None
 \<and> handleSession (standins 100 ''new1'') (preValidation (example_options secret_B))
      (example_options secret_B) (example_request (Some cookie_A))
      (JUndefined, stored_session 200) JUndefined
    = newSession (standins 100 ''new1'') secret_B (example_request (Some cookie_A))
        (cookie (example_options secret_B)) []
 \<and> unsign (standins 100 ''new1'') cookie_A secret_A = Some ''id1''
 \<and> handleSession (standins 100 ''new1'') (preValidation (example_options secret_A))
      (example_options secret_A) (example_request (Some cookie_A))
      (not_found_error, JUndefined) JUndefined
    = newSession (standins 100 ''new1'') secret_A (example_request (Some cookie_A))
        (cookie (example_options secret_A)) [StoreGet Plain (JStr ''id1'')]
 \<and> handleSession (standins 100 ''new1'') (preValidation (example_options secret_A))
      (example_options secret_A) (example_request (Some cookie_A))
      (io_error, JUndefined) JUndefined
    = \<lparr>calls = [StoreGet Plain (JStr ''id1'')],
       request_after = example_request (Some cookie_A), cookies_set = [],
       completion = Done io_error\<rparr>"
proof -
  let ?ext = "standins 100 ''new1''"
  let ?req = "example_request (Some cookie_A)"
  have scope: "prefix (path_or_default (cookieOpts (preValidation (example_options s)))) (url ?req)"
    for s
    by (simp add: path_or_default_def preValidation_def example_defs)
  have ck: "cookies ?req (cookieName (example_options s)) = Some cookie_A" for s
    by (simp add: example_defs)
  have ne: "cookie_A \<noteq> []" by (simp add: example_defs sign_standin_def)
  have uB: "unsign ?ext cookie_A secret_B = None"
    by (simp add: standin_defs example_defs)
  have uA: "unsign ?ext cookie_A secret_A = Some ''id1''"
    by (simp add: standin_defs example_defs)
  have cl: "captured_secret (preValidation (example_options s)) = s"
    "cookieOpts (preValidation (example_options s)) = cookie (example_options s)"
    "call_form (storeImplementsRequestAtGet (preValidation (example_options s))) = Plain" for s
    by (simp_all add: preValidation_def call_form_def example_defs)
  have nf: "truthy not_found_error" "getprop not_found_error ''code'' = JStr ''ENOENT''"
    by (simp_all add: example_defs)
  have io: "truthy io_error" "getprop io_error ''code'' \<noteq> JStr ''ENOENT''"
    by (simp_all add: example_defs)
  note invalid = C4_invalid_and_not_found_as_absent [OF scope [of secret_B],
      where ext = ?ext and opts = "example_options secret_B" and err = JUndefined
        and loaded = "stored_session 200" and destroy_err = JUndefined]
  note missing = C4_invalid_and_not_found_as_absent [OF scope [of secret_A],
      where ext = ?ext and opts = "example_options secret_A" and err = not_found_error
        and loaded = JUndefined and destroy_err = JUndefined]
  note failing = C4_invalid_and_not_found_as_absent [OF scope [of secret_A],
      where ext = ?ext and opts = "example_options secret_A" and err = io_error
        and loaded = JUndefined and destroy_err = JUndefined]
  have a: "handleSession ?ext (preValidation (example_options secret_B))
      (example_options secret_B) ?req (JUndefined, stored_session 200) JUndefined
    = newSession ?ext secret_B ?req (cookie (example_options secret_B)) []"
    using invalid ck ne uB by (simp add: cl)
  have b: "handleSession ?ext (preValidation (example_options secret_A))
      (example_options secret_A) ?req (not_found_error, JUndefined) JUndefined
    = newSession ?ext secret_A ?req (cookie (example_options secret_A))
        [StoreGet Plain (JStr ''id1'')]"
    using missing ck ne uA nf by (simp add: cl)
  have c: "handleSession ?ext (preValidation (example_options secret_A))
      (example_options secret_A) ?req (io_error, JUndefined) JUndefined
    = \<lparr>calls = [StoreGet Plain (JStr ''id1'')],
       request_after = ?req, cookies_set = [], completion = Done io_error\<rparr>"
    using failing ck ne uA io by (simp add: cl)
  from scope [of secret_B] uB uA a b c show ?thesis by simp
qed

text \<open>
  What the resolve phase does with a loaded session that is expired: it calls the store's
  get with the id recovered from the cookie, then the store's destroy with the cookie
  value as it arrived; an error of the destroy is passed to \<^verbatim>\<open>done\<close> and the
  request keeps the session it had; otherwise a new session is attached. The loaded
  session is attached in neither case.
\<close>

lemma expired_session_replaced:
  assumes "prefix (path_or_default (cookieOpts cl)) (url request)"
    and "cookies request (cookieName opts) = Some c" and "c \<noteq> []"
    and "unsign ext c (captured_secret cl) = Some i"
    and "\<not> truthy err" and "truthy loaded" and "isExpired ext loaded = Some True"
  shows "handleSession ext cl opts request (err, loaded) destroy_err
         = \<lparr>calls = [StoreGet (call_form (storeImplementsRequestAtGet cl)) (JStr i),
                     StoreDestroy (call_form (implementsRequestAtDestroy cl)) (JStr c)],
            request_after =
              (if truthy destroy_err then request
               else request\<lparr>session := Session ext (cookieOpts cl) (captured_secret cl) None\<rparr>),
            cookies_set = [],
            completion = Done (if truthy destroy_err then destroy_err else JUndefined)\<rparr>"
  using assms by (simp add: resolve_defs)

text \<open>
  C5 (for a loaded session that is expired the resolve phase calls the store's destroy
  for it before it attaches a new session), evaluated: the cookie is the id \<^verbatim>\<open>id1\<close> signed under the configured secret, and
  the store returns for \<^verbatim>\<open>id1\<close> a session that expired at 50, the time being 100.
  The store's get is called with \<^verbatim>\<open>id1\<close>, its destroy with the signed cookie value,
  which is not the id the session is stored under.
\<close>

theorem C5_expired_destroy_called_with_cookie_value:
  "unsign_standin cookie_A secret_A = Some ''id1''
 \<and> isExpired_standin 100 (stored_session 50) = Some True
 \<and> calls (handleSession (standins 100 ''new1'') (preValidation (example_options secret_A))
       (example_options secret_A) (example_request (Some cookie_A))
       (JUndefined, stored_session 50) JUndefined)
     = [StoreGet Plain (JStr ''id1''), StoreDestroy Plain (JStr cookie_A)]
 \<and> cookie_A \<noteq> ''id1''"
  by (simp add: resolve_defs preValidation_def call_form_def standin_defs example_defs)

subsection \<open>destroySession\<close>

text \<open>
  C2, as stated, fails: the store's destroy passes an error to its callback, the error
  reaches the caller's \<^verbatim>\<open>done\<close>, and the request's session, which was a loaded
  session, is no longer that session.
\<close>

theorem C2_counterexample:
  "truthy io_error
 \<and> session (encrypted_request (stored_session 200)) = stored_session 200
 \<and> completion (destroySession (encrypted_request (stored_session 200)) io_error)
     = Done io_error
 \<and> session (request_after (destroySession (encrypted_request (stored_session 200)) io_error))
     \<noteq> stored_session 200"
  by (simp add: destroySession_def finish_def example_defs)

text \<open>
  C2, amended: for every call of \<^verbatim>\<open>destroySession\<close> on a request whose session is
  neither null nor undefined, the store's destroy is called once with the session's id;
  whatever the store passes to the callback, error or none, the request's session is set
  to null and the caller's \<^verbatim>\<open>done\<close> is called with what the store passed.
\<close>

theorem C2_destroySession_clears_always:
  assumes "\<not> nullish (session request)"
  shows "destroySession request destroy_err
         = \<lparr>calls = [StoreDestroy (call_form (3 \<le> destroy_length (sessionStore request)))
                       (getprop (session request) ''sessionId'')],
            request_after = request\<lparr>session := JNull\<rparr>,
            cookies_set = [], completion = Done destroy_err\<rparr>"
  using assms by (simp add: destroySession_def finish_def)

theorem C2_destroySession_clears_always_witness:
  "\<not> nullish (session (encrypted_request (stored_session 200)))
 \<and> calls (destroySession (encrypted_request (stored_session 200)) io_error)
     = [StoreDestroy Plain (JStr ''id1'')]
 \<and> session (request_after (destroySession (encrypted_request (stored_session 200)) io_error))
     = JNull
 \<and> completion (destroySession (encrypted_request (stored_session 200)) io_error)
     = Done io_error
 \<and> session (request_after (destroySession (encrypted_request (stored_session 200)) JUndefined))
     = JNull
 \<and> completion (destroySession (encrypted_request (stored_session 200)) JUndefined)
     = Done JUndefined"
proof -
  have h: "\<not> nullish (session (encrypted_request (stored_session 200)))"
    by (simp add: example_defs)
  show ?thesis
    using h C2_destroySession_clears_always [OF h, of io_error]
      C2_destroySession_clears_always [OF h, of JUndefined]
    by (simp add: call_form_def example_defs)
qed

subsection \<open>The form of the store calls\<close>

text \<open>
  C3, as stated, fails. The plugin is set up with a store whose destroy declares two
  parameters, so the form determined at set-up is the short one, and
  \<^verbatim>\<open>handleSession\<close> uses it also when the store's methods declare three parameters
  by the time it runs. \<^verbatim>\<open>destroySession\<close>, on a request whose store's destroy then
  declares three parameters, reads that count and calls the form with the request.
\<close>

theorem C3_counterexample:
  "implementsRequestAtDestroy (preValidation (example_options secret_A)) = False
 \<and> calls (handleSession (standins 100 ''new1'') (preValidation (example_options secret_A))
       ((example_options secret_A)\<lparr>store := request_store\<rparr>)
       ((example_request (Some cookie_A))\<lparr>sessionStore := request_store\<rparr>)
       (JUndefined, stored_session 50) JUndefined)
     = [StoreGet Plain (JStr ''id1''), StoreDestroy Plain (JStr cookie_A)]
 \<and> calls (destroySession
       ((encrypted_request (stored_session 200))\<lparr>sessionStore := request_store\<rparr>) JUndefined)
     = [StoreDestroy WithRequest (JStr ''id1'')]"
  by (simp add: resolve_defs destroySession_def preValidation_def call_form_def
        standin_defs example_defs)

text \<open>The store calls a hook can make, by form and argument.\<close>

lemma calls_finish: "calls (finish cs request v) = cs"
  by (simp add: finish_def)

lemma calls_throw: "calls (throw cs request) = cs"
  by (simp add: throw_def)

lemma calls_newSession: "calls (newSession ext sec request copts cs) = cs"
  by (simp add: newSession_def finish_def)

lemma calls_getDestroyCallback: "calls (getDestroyCallback ext sec request copts cs err) = cs"
  by (simp add: getDestroyCallback_def calls_finish calls_newSession)

lemma calls_getCallback:
  "calls (getCallback ext cl request sessionId cs reply destroy_err) = cs
 \<or> calls (getCallback ext cl request sessionId cs reply destroy_err)
     = cs @ [StoreDestroy (call_form (implementsRequestAtDestroy cl)) (JStr sessionId)]"
  by (simp add: getCallback_def Let_def calls_finish calls_throw calls_newSession
        calls_getDestroyCallback split: option.split bool.split)

lemma calls_handleSession:
  "calls (handleSession ext cl opts request get_reply destroy_err) = []
 \<or> (\<exists>i. calls (handleSession ext cl opts request get_reply destroy_err)
          = [StoreGet (call_form (storeImplementsRequestAtGet cl)) (JStr i)])
 \<or> (\<exists>i c. calls (handleSession ext cl opts request get_reply destroy_err)
          = [StoreGet (call_form (storeImplementsRequestAtGet cl)) (JStr i),
             StoreDestroy (call_form (implementsRequestAtDestroy cl)) (JStr c)])"
proof (cases "\<exists>c i. handleSession ext cl opts request get_reply destroy_err
    = getCallback ext cl request c
        [StoreGet (call_form (storeImplementsRequestAtGet cl)) (JStr i)] get_reply destroy_err")
  case True
  then obtain c i where "handleSession ext cl opts request get_reply destroy_err
    = getCallback ext cl request c
        [StoreGet (call_form (storeImplementsRequestAtGet cl)) (JStr i)] get_reply destroy_err"
    by blast
  then show ?thesis
    using calls_getCallback [of ext cl request c
        "[StoreGet (call_form (storeImplementsRequestAtGet cl)) (JStr i)]" get_reply destroy_err]
    by auto
next
  case False
  then have "calls (handleSession ext cl opts request get_reply destroy_err) = []"
    by (auto simp add: handleSession_def Let_def calls_finish calls_newSession
          split: option.splits if_splits)
  then show ?thesis by simp
qed

lemma calls_saveSession:
  "calls (saveSession ext cl opts request set_err) = []
 \<or> calls (saveSession ext cl opts request set_err)
     = [StoreSet (call_form (storeImplementsRequestAtSet cl))
          (getprop (session request) ''sessionId'') (session request)]"
  by (simp add: saveSession_def Let_def calls_finish calls_throw
        split: option.split bool.split)

lemma calls_destroySession:
  "calls (destroySession request destroy_err) = []
 \<or> calls (destroySession request destroy_err)
     = [StoreDestroy (call_form (3 \<le> destroy_length (sessionStore request)))
          (getprop (session request) ''sessionId'')]"
  by (simp add: destroySession_def Let_def calls_finish calls_throw)

text \<open>
  C3, amended: the form of the store's get and destroy in the resolve phase and of the
  store's set in the persist phase is determined once, at set-up, from the declared
  parameter count of the method (three or more for get and destroy, four or more for
  set), and every call of these hooks uses it, whatever the options and the store are
  when the hook runs. \<^verbatim>\<open>destroySession\<close> reads the parameter count of the destroy
  method of the request's store at each call and uses the form it finds then.
\<close>

theorem C3_call_forms:
  "(\<forall>c \<in> set (calls (handleSession ext (preValidation opts0) opts request get_reply destroy_err)).
      (\<exists>k. c = StoreGet (call_form (3 \<le> get_length (store opts0))) k)
    \<or> (\<exists>k. c = StoreDestroy (call_form (3 \<le> destroy_length (store opts0))) k))
 \<and> (\<forall>c \<in> set (calls (saveSession ext (onSend opts0) opts request set_err)).
      \<exists>k s. c = StoreSet (call_form (4 \<le> set_length (store opts0))) k s)
 \<and> (\<forall>c \<in> set (calls (destroySession request destroy_err)).
      \<exists>k. c = StoreDestroy (call_form (3 \<le> destroy_length (sessionStore request))) k)"
proof -
  have g: "storeImplementsRequestAtGet (preValidation opts0) = (3 \<le> get_length (store opts0))"
    and d: "implementsRequestAtDestroy (preValidation opts0)
            = (3 \<le> destroy_length (store opts0))"
    by (simp_all add: preValidation_def)
  have s: "storeImplementsRequestAtSet (onSend opts0) = (4 \<le> set_length (store opts0))"
    by (simp add: onSend_def)
  have 1: "\<forall>c \<in> set (calls (handleSession ext (preValidation opts0) opts request
                               get_reply destroy_err)).
      (\<exists>k. c = StoreGet (call_form (3 \<le> get_length (store opts0))) k)
    \<or> (\<exists>k. c = StoreDestroy (call_form (3 \<le> destroy_length (store opts0))) k)"
    using calls_handleSession [of ext "preValidation opts0" opts request get_reply destroy_err]
    unfolding g d by auto
  have 2: "\<forall>c \<in> set (calls (saveSession ext (onSend opts0) opts request set_err)).
      \<exists>k s. c = StoreSet (call_form (4 \<le> set_length (store opts0))) k s"
    using calls_saveSession [of ext "onSend opts0" opts request set_err]
    unfolding s by auto
  have 3: "\<forall>c \<in> set (calls (destroySession request destroy_err)).
      \<exists>k. c = StoreDestroy (call_form (3 \<le> destroy_length (sessionStore request))) k"
    using calls_destroySession [of request destroy_err] by auto
  from 1 2 3 show ?thesis by blast
qed


theorem C3_call_forms_witness:
  "calls (handleSession (standins 100 ''new1'') (preValidation (example_options secret_A))
       ((example_options secret_A)\<lparr>store := request_store\<rparr>)
       ((example_request (Some cookie_A))\<lparr>sessionStore := request_store\<rparr>)
       (JUndefined, stored_session 50) JUndefined)
     = [StoreGet Plain (JStr ''id1''), StoreDestroy Plain (JStr cookie_A)]
 \<and> call_form (3 \<le> get_length (store (example_options secret_A))) = Plain
 \<and> call_form (3 \<le> destroy_length (store (example_options secret_A))) = Plain
 \<and> (\<exists>k. StoreGet Plain (JStr ''id1'')
          = StoreGet (call_form (3 \<le> get_length (store (example_options secret_A)))) k)
 \<and> (\<exists>k. StoreDestroy Plain (JStr cookie_A)
          = StoreDestroy (call_form (3 \<le> destroy_length (store (example_options secret_A)))) k)"
proof -
  let ?ext = "standins 100 ''new1''"
  let ?conf = "example_options secret_A"
  let ?now = "(example_options secret_A)\<lparr>store := request_store\<rparr>"
  let ?req = "(example_request (Some cookie_A))\<lparr>sessionStore := request_store\<rparr>"
  let ?G = "\<lambda>c. \<exists>k. c = StoreGet (call_form (3 \<le> get_length (store ?conf))) k"
  let ?D = "\<lambda>c. \<exists>k. c = StoreDestroy (call_form (3 \<le> destroy_length (store ?conf))) k"
  have r: "calls (handleSession ?ext (preValidation ?conf) ?now ?req
             (JUndefined, stored_session 50) JUndefined)
           = [StoreGet Plain (JStr ''id1''), StoreDestroy Plain (JStr cookie_A)]"
    by (simp add: resolve_defs preValidation_def call_form_def standin_defs example_defs)
  have f: "call_form (3 \<le> get_length (store ?conf)) = Plain"
    "call_form (3 \<le> destroy_length (store ?conf)) = Plain"
    by (simp_all add: call_form_def example_options_def plain_store_def)
  have "\<forall>c \<in> set (calls (handleSession ?ext (preValidation ?conf) ?now ?req
                          (JUndefined, stored_session 50) JUndefined)). ?G c \<or> ?D c"
    using C3_call_forms [where ext = ?ext and ?opts0.0 = ?conf and opts = ?now
      and request = ?req and get_reply = "(JUndefined, stored_session 50)"
      and destroy_err = JUndefined]
    by (rule conjunct1)
  then have "\<forall>c \<in> set [StoreGet Plain (JStr ''id1''), StoreDestroy Plain (JStr cookie_A)].
               ?G c \<or> ?D c"
    unfolding r .
  then have "?G (StoreGet Plain (JStr ''id1''))" "?D (StoreDestroy Plain (JStr cookie_A))"
    by auto
  with r f show ?thesis by blast
qed

subsection \<open>Saving the session\<close>

lemma initial_shape_four_keys:
  assumes "initial_shape s"
  shows "Object_keys_length s = Some 4"
proof (cases s)
  case (JObj kvs)
  with assms have d: "distinct (map fst kvs)"
    and e: "set (map fst kvs) = set bookkeeping_keys" by simp_all
  have "length (map fst kvs) = card (set (map fst kvs))"
    using distinct_card [OF d] by simp
  also have "\<dots> = card (set bookkeeping_keys)" using e by simp
  also have "\<dots> = 4" by (simp add: bookkeeping_keys_def)
  finally show ?thesis using JObj by simp
qed (use assms in simp_all)

text \<open>
  C6: when \<^verbatim>\<open>saveUninitialized\<close> is false (or any falsy value) and the request's
  session has its initial shape, that is exactly the bookkeeping keys and no other, the
  persist phase calls no store method, sets no cookie and calls \<^verbatim>\<open>done\<close> without
  an error.
\<close>

theorem C6_unmodified_not_saved:
  assumes "\<not> truthy (saveUninitialized opts)" and "initial_shape (session request)"
  shows "calls (saveSession ext cl opts request set_err) = []
       \<and> cookies_set (saveSession ext cl opts request set_err) = []
       \<and> completion (saveSession ext cl opts request set_err) = Done JUndefined"
  using assms initial_shape_four_keys [OF assms(2)]
  by (simp add: persist_defs)

theorem C6_unmodified_not_saved_witness:
  "\<not> truthy (saveUninitialized ((example_options secret_A)\<lparr>saveUninitialized := JBool False\<rparr>))
 \<and> initial_shape (session (encrypted_request fresh_session))
 \<and> truthy (getprop (session (encrypted_request fresh_session)) ''sessionId'')
 \<and> calls (saveSession (standins 100 ''new1'') (onSend (example_options secret_A))
      ((example_options secret_A)\<lparr>saveUninitialized := JBool False\<rparr>)
      (encrypted_request fresh_session) JUndefined) = []
 \<and> cookies_set (saveSession (standins 100 ''new1'') (onSend (example_options secret_A))
      ((example_options secret_A)\<lparr>saveUninitialized := JBool False\<rparr>)
      (encrypted_request fresh_session) JUndefined) = []
 \<and> completion (saveSession (standins 100 ''new1'') (onSend (example_options secret_A))
      ((example_options secret_A)\<lparr>saveUninitialized := JBool False\<rparr>)
      (encrypted_request fresh_session) JUndefined) = Done JUndefined"
proof -
  have h1: "\<not> truthy (saveUninitialized
                ((example_options secret_A)\<lparr>saveUninitialized := JBool False\<rparr>))"
    by simp
  have h2: "initial_shape (session (encrypted_request fresh_session))"
    by (simp add: example_defs Session_standin_def bookkeeping_keys_def)
  have h3: "truthy (getprop (session (encrypted_request fresh_session)) ''sessionId'')"
    by (simp add: example_defs Session_standin_def)
  show ?thesis
    using h1 h2 h3
      C6_unmodified_not_saved [OF h1 h2, of "standins 100 ''new1''"
        "onSend (example_options secret_A)" JUndefined]
    by simp
qed

text \<open>
  C7: when the cookie's \<^verbatim>\<open>secure\<close> option is strictly \<^verbatim>\<open>true\<close>, the connection
  is not encrypted and the \<^verbatim>\<open>x-forwarded-proto\<close> header is not exactly
  \<^verbatim>\<open>https\<close>, the persist phase calls no store method and sets no cookie. When
  \<^verbatim>\<open>secure\<close> is anything else, \<^verbatim>\<open>shouldSaveSession\<close> is decided by
  \<^verbatim>\<open>saveUninitialized\<close> and the modified test alone.
\<close>

theorem C7_secure_policy:
  "(secure (cookie opts) = JBool True
      \<and> \<not> (truthy (connection request)
             \<and> getprop (connection request) ''encrypted'' = JBool True)
      \<and> headers request ''x-forwarded-proto'' \<noteq> Some ''https''
    \<longrightarrow> calls (saveSession ext cl opts request set_err) = []
        \<and> cookies_set (saveSession ext cl opts request set_err) = [])
 \<and> (secure copts \<noteq> JBool True
    \<longrightarrow> shouldSaveSession request copts saveUninit =
          (if truthy saveUninit then Some True else isSessionModified (session request)))"
  by (auto simp add: persist_defs split: option.splits bool.splits)

theorem C7_secure_policy_witness:
  "secure (cookie (example_options secret_A)) = JBool True
 \<and> \<not> (truthy (connection ((example_request None)\<lparr>session := fresh_session\<rparr>))
        \<and> getprop (connection ((example_request None)\<lparr>session := fresh_session\<rparr>))
             ''encrypted'' = JBool True)
 \<and> headers ((example_request None)\<lparr>session := fresh_session\<rparr>) ''x-forwarded-proto''
     \<noteq> Some ''https''
 \<and> calls (saveSession (standins 100 ''new1'') (onSend (example_options secret_A))
      (example_options secret_A) ((example_request None)\<lparr>session := fresh_session\<rparr>)
      JUndefined) = []
 \<and> cookies_set (saveSession (standins 100 ''new1'') (onSend (example_options secret_A))
      (example_options secret_A) ((example_request None)\<lparr>session := fresh_session\<rparr>)
      JUndefined) = []
 \<and> secure \<lparr>path = None, secure = JBool False\<rparr> \<noteq> JBool True
 \<and> shouldSaveSession ((example_request None)\<lparr>session := fresh_session\<rparr>)
      \<lparr>path = None, secure = JBool False\<rparr> (JBool True) = Some True"
proof -
  let ?req = "(example_request None)\<lparr>session := fresh_session\<rparr>"
  have h1: "secure (cookie (example_options secret_A)) = JBool True"
    by (simp add: example_defs)
  have h2: "\<not> (truthy (connection ?req) \<and> getprop (connection ?req) ''encrypted'' = JBool True)"
    by (simp add: example_defs)
  have h3: "headers ?req ''x-forwarded-proto'' \<noteq> Some ''https''"
    by (simp add: example_defs)
  have h4: "secure \<lparr>path = None, secure = JBool False\<rparr> \<noteq> JBool True"
    by simp
  note t1 = C7_secure_policy [where opts = "example_options secret_A" and request = ?req
      and ext = "standins 100 ''new1''" and cl = "onSend (example_options secret_A)"
      and set_err = JUndefined and copts = "\<lparr>path = None, secure = JBool False\<rparr>"
      and saveUninit = "JBool True"]
  from t1 h1 h2 h3 have a: "calls (saveSession (standins 100 ''new1'')
      (onSend (example_options secret_A)) (example_options secret_A) ?req JUndefined) = []
    \<and> cookies_set (saveSession (standins 100 ''new1'')
      (onSend (example_options secret_A)) (example_options secret_A) ?req JUndefined) = []"
    by blast
  from t1 h4 have b: "shouldSaveSession ?req \<lparr>path = None, secure = JBool False\<rparr> (JBool True)
      = Some True"
    by simp
  from h1 h2 h3 h4 a b show ?thesis by blast
qed

text \<open>
  C8: when the request's session is absent (null, undefined or any falsy value) or has no
  id (\<^verbatim>\<open>sessionId\<close> missing or falsy), the persist phase does nothing: no store
  method is called, no cookie is set, the request is as it was and \<^verbatim>\<open>done\<close> is
  called without an error.
\<close>

theorem C8_unmaterialized_not_saved:
  assumes "\<not> truthy (session request) \<or> \<not> truthy (getprop (session request) ''sessionId'')"
  shows "saveSession ext cl opts request set_err =
           \<lparr>calls = [], request_after = request, cookies_set = [],
            completion = Done JUndefined\<rparr>"
  using assms by (auto simp add: saveSession_def finish_def Let_def)

theorem C8_unmaterialized_not_saved_witness:
  "truthy (session (encrypted_request (JObj [])))
 \<and> \<not> truthy (getprop (session (encrypted_request (JObj []))) ''sessionId'')
 \<and> saveSession (standins 100 ''new1'') (onSend (example_options secret_A))
      (example_options secret_A) (encrypted_request (JObj [])) JUndefined
    = \<lparr>calls = [], request_after = encrypted_request (JObj []), cookies_set = [],
       completion = Done JUndefined\<rparr>
 \<and> \<not> truthy (session (encrypted_request JNull))
 \<and> saveSession (standins 100 ''new1'') (onSend (example_options secret_A))
      (example_options secret_A) (encrypted_request JNull) JUndefined
    = \<lparr>calls = [], request_after = encrypted_request JNull, cookies_set = [],
       completion = Done JUndefined\<rparr>"
proof -
  have h0: "truthy (session (encrypted_request (JObj [])))"
    by (simp add: example_defs)
  have h1: "\<not> truthy (getprop (session (encrypted_request (JObj []))) ''sessionId'')"
    by (simp add: example_defs)
  have h2: "\<not> truthy (session (encrypted_request JNull))"
    by (simp add: example_defs)
  show ?thesis
    using h0 h1 h2
      C8_unmaterialized_not_saved [OF disjI2 [OF h1], of "standins 100 ''new1''"
        "onSend (example_options secret_A)" "example_options secret_A" JUndefined]
      C8_unmaterialized_not_saved [OF disjI1 [OF h2], of "standins 100 ''new1''"
        "onSend (example_options secret_A)" "example_options secret_A" JUndefined]
    by simp
qed

text \<open>
  C10: whether a session counts as modified depends on the number of its keys alone: two
  sessions with the same number of keys are classified alike; a session with exactly
  four keys is unmodified, and with \<^verbatim>\<open>saveUninitialized\<close> false the persist phase
  then calls no store method and sets no cookie; a session with any other number of keys
  is modified.
\<close>

theorem C10_modified_by_key_count:
  "(Object_keys_length s = Object_keys_length s'
      \<longrightarrow> isSessionModified s = isSessionModified s')
 \<and> (Object_keys_length s = Some 4 \<longrightarrow> isSessionModified s = Some False)
 \<and> (\<forall>n. Object_keys_length s = Some n \<and> n \<noteq> 4 \<longrightarrow> isSessionModified s = Some True)
 \<and> (Object_keys_length (session request) = Some 4 \<and> \<not> truthy (saveUninitialized opts)
      \<longrightarrow> calls (saveSession ext cl opts request set_err) = []
        \<and> cookies_set (saveSession ext cl opts request set_err) = [])"
  by (auto simp add: persist_defs)


theorem C10_modified_by_key_count_witness:
  "Object_keys_length fresh_session = Object_keys_length (stored_session 200)
 \<and> isSessionModified fresh_session = isSessionModified (stored_session 200)
 \<and> Object_keys_length fresh_session = Some 4
 \<and> isSessionModified fresh_session = Some False
 \<and> Object_keys_length (JObj []) = Some 0
 \<and> isSessionModified (JObj []) = Some True
 \<and> \<not> truthy (saveUninitialized ((example_options secret_A)\<lparr>saveUninitialized := JBool False\<rparr>))
 \<and> calls (saveSession (standins 100 ''new1'') (onSend (example_options secret_A))
      ((example_options secret_A)\<lparr>saveUninitialized := JBool False\<rparr>)
      (encrypted_request fresh_session) JUndefined) = []
 \<and> cookies_set (saveSession (standins 100 ''new1'') (onSend (example_options secret_A))
      ((example_options secret_A)\<lparr>saveUninitialized := JBool False\<rparr>)
      (encrypted_request fresh_session) JUndefined) = []"
proof -
  let ?off = "(example_options secret_A)\<lparr>saveUninitialized := JBool False\<rparr>"
  have k: "Object_keys_length fresh_session = Some 4"
    "Object_keys_length (stored_session 200) = Some 4"
    "Object_keys_length (JObj []) = Some 0"
    by (simp_all add: example_defs Session_standin_def)
  have r: "Object_keys_length (session (encrypted_request fresh_session)) = Some 4"
    using k(1) by (simp add: encrypted_request_def)
  have u: "\<not> truthy (saveUninitialized ?off)" by simp
  note same = C10_modified_by_key_count [where s = fresh_session and s' = "stored_session 200"
      and request = "encrypted_request fresh_session" and opts = ?off
      and ext = "standins 100 ''new1''" and cl = "onSend (example_options secret_A)"
      and set_err = JUndefined]
  note other = C10_modified_by_key_count [where s = "JObj []" and s' = "JObj []"
      and request = "encrypted_request fresh_session" and opts = ?off
      and ext = "standins 100 ''new1''" and cl = "onSend (example_options secret_A)"
      and set_err = JUndefined]
  have e: "Object_keys_length fresh_session = Object_keys_length (stored_session 200)"
    using k by simp
  from same e have a1: "isSessionModified fresh_session = isSessionModified (stored_session 200)"
    by (rule conjunct1 [THEN mp])
  from same k(1) have a2: "isSessionModified fresh_session = Some False"
    by (rule conjunct2 [THEN conjunct1, THEN mp])
  from other have "Object_keys_length (JObj []) = Some 0 \<and> (0::nat) \<noteq> 4
      \<longrightarrow> isSessionModified (JObj []) = Some True"
    by blast
  with k(3) have b: "isSessionModified (JObj []) = Some True"
    by simp
  from same r u have c: "calls (saveSession (standins 100 ''new1'')
        (onSend (example_options secret_A)) ?off (encrypted_request fresh_session) JUndefined) = []
    \<and> cookies_set (saveSession (standins 100 ''new1'')
        (onSend (example_options secret_A)) ?off (encrypted_request fresh_session) JUndefined) = []"
    by blast
  from k e a1 a2 b u c show ?thesis by simp
qed

end
